theory Spec2Isabelle
  imports Complex_Main "HOL-Library.Multiset"
begin

section \<open>Vote scoring of \<^verbatim>\<open>app_dev_rewrite.py\<close>\<close>

text \<open>
  The development embeds the scoring core of \<^verbatim>\<open>src/app_dev_rewrite.py\<close>: the enumerations,
  the pydantic models that the scoring functions read, \<^verbatim>\<open>VoteScorer.score_vote\<close>,
  \<^verbatim>\<open>VoteScorer._vote_aligns_with_values\<close>, \<^verbatim>\<open>ScoringEngine.calculate_overall_score\<close>
  and \<^verbatim>\<open>ScoringEngine._score_to_category\<close>.

  Modelling decisions.
  \<^item> A Python \<^verbatim>\<open>float\<close> is a \<^typ>\<open>real\<close>: arithmetic is exact, rounding, infinities and
    NaN of IEEE 754 are not modelled.
  \<^item> A Python \<^verbatim>\<open>str\<close> is a \<^typ>\<open>string\<close> of ASCII characters; \<^verbatim>\<open>str.lower\<close> maps
    \<^verbatim>\<open>A\<close>..\<^verbatim>\<open>Z\<close> to \<^verbatim>\<open>a\<close>..\<^verbatim>\<open>z\<close> and leaves every other character alone.
  \<^item> A \<^verbatim>\<open>datetime\<close> is an integer time stamp; no scoring function reads it.
  \<^item> A \<^verbatim>\<open>Dict\<close> is a map; \<^verbatim>\<open>d.get(k, v)\<close> is a case distinction on the lookup.
  \<^item> The objects \<^verbatim>\<open>VoteScorer\<close> and \<^verbatim>\<open>ScoringEngine\<close> hold nothing but their
    \<^verbatim>\<open>client_values\<close>, so a method is a function of the client values and its argument.
\<close>

subsection \<open>Core data models\<close>

datatype PolicyArea = TAX_POLICY | REGULATION | SPENDING | TRADE | LABOR_POLICY

datatype VoteResult = YEA | NAY | PRESENT | ABSENT

datatype ScoreCategory =
    STRONGLY_PRO_MARKET
  | LEANS_PRO_MARKET
  | MIXED_MODERATE
  | LEANS_REGULATORY
  | STRONGLY_REGULATORY

type_synonym datetime = int

record ClientValues =
  name :: string
  description :: string
  policy_weights :: "PolicyArea \<rightharpoonup> real"
  score_interpretation :: "ScoreCategory \<rightharpoonup> string"
  preferred_vote_outcomes :: "string \<rightharpoonup> bool"

record PolicyPosition =
  policy_area :: PolicyArea
  stance_summary :: string
  evidence_sources :: "string list"
  confidence_level :: string
  last_updated :: datetime

record CandidateProfile =
  candidate_id :: string
  full_name :: string
  office :: string
  party :: string
  state_district :: string
  committee_assignments :: "string list"
  years_in_office :: "int option"
  next_election :: "datetime option"

text \<open>
  \<^verbatim>\<open>VerifiableVote\<close> is declared last of the records that share a field name with it, so
  that \<open>policy_area\<close> and \<open>description\<close> without a qualifier are the vote's fields.
\<close>

record VerifiableVote =
  bill_id :: string
  bill_name :: string
  vote_date :: datetime
  vote_result :: VoteResult
  policy_area :: PolicyArea
  description :: string
  source_url :: "string option"
  verification_status :: string

record ResearchResult =
  candidate :: CandidateProfile
  policy_positions :: "PolicyPosition list"
  verified_votes :: "VerifiableVote list"
  economic_score :: real
  score_category :: ScoreCategory
  client_values_used :: string
  research_timestamp :: datetime
  data_completeness :: real

subsection \<open>The default client configuration\<close>

definition DEFAULT_CLIENT_VALUES :: ClientValues where
  "DEFAULT_CLIENT_VALUES =
     \<lparr> name = ''Economic Freedom Focus'',
       ClientValues.description = ''Fiscal discipline and economic freedom analysis'',
       policy_weights =
         [TAX_POLICY \<mapsto> 0.25, REGULATION \<mapsto> 0.25, SPENDING \<mapsto> 0.20,
          TRADE \<mapsto> 0.15, LABOR_POLICY \<mapsto> 0.15],
       score_interpretation =
         [STRONGLY_PRO_MARKET \<mapsto> ''Champion of economic freedom'',
          LEANS_PRO_MARKET \<mapsto> ''Generally supports free markets'',
          MIXED_MODERATE \<mapsto> ''Mixed record on economic issues'',
          LEANS_REGULATORY \<mapsto> ''Tends toward government intervention'',
          STRONGLY_REGULATORY \<mapsto> ''Opposes free market principles''],
       preferred_vote_outcomes =
         [''tax_cut'' \<mapsto> True, ''tax_increase'' \<mapsto> False,
          ''deregulation'' \<mapsto> True, ''new_regulation'' \<mapsto> False,
          ''spending_cut'' \<mapsto> True, ''spending_increase'' \<mapsto> False,
          ''free_trade'' \<mapsto> True, ''protectionism'' \<mapsto> False] \<rparr>"

subsection \<open>Strings: \<^verbatim>\<open>str.lower\<close> and the substring test \<^verbatim>\<open>in\<close>\<close>

definition lower_char :: "char \<Rightarrow> char" where
  "lower_char c =
     (case map_of (zip ''ABCDEFGHIJKLMNOPQRSTUVWXYZ'' ''abcdefghijklmnopqrstuvwxyz'') c of
        None \<Rightarrow> c
      | Some l \<Rightarrow> l)"

definition lower :: "string \<Rightarrow> string" where
  "lower s = map lower_char s"

text \<open>\<open>startswith s t\<close>: the string \<open>s\<close> begins with \<open>t\<close>.\<close>

primrec startswith :: "string \<Rightarrow> string \<Rightarrow> bool" where
  "startswith s [] = True"
| "startswith s (t # ts) = (case s of [] \<Rightarrow> False | c # cs \<Rightarrow> c = t \<and> startswith cs ts)"

text \<open>\<open>contains s t\<close> is Python's \<^verbatim>\<open>t in s\<close>: \<open>t\<close> occurs in \<open>s\<close> at some position.\<close>

primrec contains :: "string \<Rightarrow> string \<Rightarrow> bool" where
  "contains [] t = (t = [])"
| "contains (c # cs) t = (startswith (c # cs) t \<or> contains cs t)"

text \<open>\<open>any_term_in terms s\<close> is \<^verbatim>\<open>any(term in s for term in terms)\<close>.\<close>

definition any_term_in :: "string list \<Rightarrow> string \<Rightarrow> bool" where
  "any_term_in terms s = list_ex (\<lambda>t. contains s t) terms"

subsection \<open>\<^verbatim>\<open>VoteScorer._vote_aligns_with_values\<close>\<close>

text \<open>The keyword lists are local to the branches of the method; they keep their names.\<close>

definition tax_cut_terms :: "string list" where
  "tax_cut_terms =
     [''tax cut'', ''reduce tax'', ''tax reduction'', ''tax relief'', ''lower tax'',
      ''tax decrease'']"

definition tax_increase_terms :: "string list" where
  "tax_increase_terms = [''tax increase'', ''raise tax'', ''higher tax'', ''tax hike'']"

definition dereg_terms :: "string list" where
  "dereg_terms =
     [''deregulat'', ''reduce regulation'', ''eliminate regulation'', ''regulatory relief'']"

definition reg_terms :: "string list" where
  "reg_terms =
     [''new regulation'', ''increase regulation'', ''expand regulation'',
      ''regulatory expansion'']"

definition cut_terms :: "string list" where
  "cut_terms =
     [''cut spending'', ''reduce budget'', ''spending reduction'', ''fiscal restraint'']"

definition increase_terms :: "string list" where
  "increase_terms =
     [''increase spending'', ''expand budget'', ''spending increase'', ''more funding'']"

definition trade_terms :: "string list" where
  "trade_terms =
     [''free trade'', ''trade agreement'', ''reduce tariff'', ''eliminate tariff'']"

definition protectionist_terms :: "string list" where
  "protectionist_terms = [''increase tariff'', ''trade protection'', ''import restriction'']"

definition labor_freedom_terms :: "string list" where
  "labor_freedom_terms = [''reduce minimum wage'', ''labor flexibility'', ''right to work'']"

definition labor_restriction_terms :: "string list" where
  "labor_restriction_terms =
     [''increase minimum wage'', ''expand union'', ''worker protection'']"

definition vote_aligns_with_values :: "VerifiableVote \<Rightarrow> bool" where
  "vote_aligns_with_values vote =
     (let description_lower = lower (description vote) in
      case policy_area vote of
        TAX_POLICY \<Rightarrow>
          if any_term_in tax_cut_terms description_lower then True
          else if any_term_in tax_increase_terms description_lower then False
          else False
      | REGULATION \<Rightarrow>
          if any_term_in dereg_terms description_lower then True
          else if any_term_in reg_terms description_lower then False
          else False
      | SPENDING \<Rightarrow>
          if any_term_in cut_terms description_lower then True
          else if any_term_in increase_terms description_lower then False
          else False
      | TRADE \<Rightarrow>
          if any_term_in trade_terms description_lower then True
          else if any_term_in protectionist_terms description_lower then False
          else False
      | LABOR_POLICY \<Rightarrow>
          if any_term_in labor_freedom_terms description_lower then True
          else if any_term_in labor_restriction_terms description_lower then False
          else False)"

text \<open>
  The first list of each branch (the terms that support the client's values) and the
  second one (the terms that oppose them), by policy area.
\<close>

definition supporting_terms :: "PolicyArea \<Rightarrow> string list" where
  "supporting_terms area =
     (case area of
        TAX_POLICY \<Rightarrow> tax_cut_terms
      | REGULATION \<Rightarrow> dereg_terms
      | SPENDING \<Rightarrow> cut_terms
      | TRADE \<Rightarrow> trade_terms
      | LABOR_POLICY \<Rightarrow> labor_freedom_terms)"

definition opposing_terms :: "PolicyArea \<Rightarrow> string list" where
  "opposing_terms area =
     (case area of
        TAX_POLICY \<Rightarrow> tax_increase_terms
      | REGULATION \<Rightarrow> reg_terms
      | SPENDING \<Rightarrow> increase_terms
      | TRADE \<Rightarrow> protectionist_terms
      | LABOR_POLICY \<Rightarrow> labor_restriction_terms)"

subsection \<open>\<^verbatim>\<open>VoteScorer.score_vote\<close>\<close>

definition score_vote :: "ClientValues \<Rightarrow> VerifiableVote \<Rightarrow> real" where
  "score_vote client_values vote =
     (let base_score = 50;
          vote_aligns = vote_aligns_with_values vote;
          alignment_score =
            (if vote_result vote = YEA then (if vote_aligns then 75 else 25)
             else if vote_result vote = NAY then (if vote_aligns then 25 else 75)
             else 50);
          area_weight =
            (case policy_weights client_values (policy_area vote) of
               None \<Rightarrow> 0.2
             | Some w \<Rightarrow> w);
          final_score = base_score + (alignment_score - base_score) * area_weight * 2
      in max 0 (min 100 final_score))"

text \<open>The local variable \<^verbatim>\<open>alignment_score\<close> of \<^verbatim>\<open>score_vote\<close>, as a function of the vote.\<close>

definition alignment_score :: "VerifiableVote \<Rightarrow> real" where
  "alignment_score vote =
     (if vote_result vote = YEA then (if vote_aligns_with_values vote then 75 else 25)
      else if vote_result vote = NAY then (if vote_aligns_with_values vote then 25 else 75)
      else 50)"

text \<open>The local variable \<^verbatim>\<open>area_weight\<close> of \<^verbatim>\<open>score_vote\<close>.\<close>

definition area_weight :: "ClientValues \<Rightarrow> VerifiableVote \<Rightarrow> real" where
  "area_weight client_values vote =
     (case policy_weights client_values (policy_area vote) of
        None \<Rightarrow> 0.2
      | Some w \<Rightarrow> w)"

subsection \<open>\<^verbatim>\<open>ScoringEngine\<close>\<close>

definition score_to_category :: "real \<Rightarrow> ScoreCategory" where
  "score_to_category score =
     (if score \<ge> 80 then STRONGLY_PRO_MARKET
      else if score \<ge> 60 then LEANS_PRO_MARKET
      else if score \<ge> 40 then MIXED_MODERATE
      else if score \<ge> 20 then LEANS_REGULATORY
      else STRONGLY_REGULATORY)"

definition calculate_overall_score :: "ClientValues \<Rightarrow> ResearchResult \<Rightarrow> real \<times> ScoreCategory" where
  "calculate_overall_score client_values research_result =
     (if verified_votes research_result = [] then (50, MIXED_MODERATE)
      else
        let vote_scores = map (score_vote client_values) (verified_votes research_result);
            overall_score = sum_list vote_scores / real (length vote_scores);
            category = score_to_category overall_score
        in (overall_score, category))"

subsection \<open>The votes of \<^verbatim>\<open>test_vote_scorer\<close>\<close>

text \<open>The test takes \<^verbatim>\<open>datetime.now()\<close> as the date; the time stamp 0 stands for it.\<close>

definition pro_market_vote :: VerifiableVote where
  "pro_market_vote =
     \<lparr> bill_id = ''HR123'', bill_name = ''Tax Cuts Act'', vote_date = 0,
       vote_result = YEA, policy_area = TAX_POLICY,
       description = ''Reduces corporate tax rates by 5%'',
       source_url = None, verification_status = ''pending'' \<rparr>"


subsection \<open>The research result of \<^verbatim>\<open>test_data_conversion\<close>\<close>

text \<open>
  The test leaves the fields with a default at their default and gives no
  \<^verbatim>\<open>data_completeness\<close>; 1 stands for it here.
\<close>

definition mock_candidate :: CandidateProfile where
  "mock_candidate =
     \<lparr> candidate_id = ''test_123'', full_name = ''Test Candidate'', office = ''Senator'',
       party = ''Republican'', state_district = ''TX-01'', committee_assignments = [],
       years_in_office = None, next_election = None \<rparr>"

definition mock_research_result :: ResearchResult where
  "mock_research_result =
     \<lparr> candidate = mock_candidate, policy_positions = [], verified_votes = [],
       economic_score = 75, score_category = LEANS_PRO_MARKET,
       client_values_used = name DEFAULT_CLIENT_VALUES,
       research_timestamp = 0, data_completeness = 1 \<rparr>"

text \<open>A configuration with a weight above 1 for tax policy, and one with no weight at all.\<close>

definition heavy_tax_values :: ClientValues where
  "heavy_tax_values = DEFAULT_CLIENT_VALUES \<lparr> policy_weights := [TAX_POLICY \<mapsto> 3] \<rparr>"

definition unweighted_values :: ClientValues where
  "unweighted_values = DEFAULT_CLIENT_VALUES \<lparr> policy_weights := Map.empty \<rparr>"

text \<open>A vote whose description holds a supporting and an opposing term of its area.\<close>

definition mixed_terms_vote :: VerifiableVote where
  "mixed_terms_vote =
     \<lparr> bill_id = ''HR321'', bill_name = ''Tax Reform Act'', vote_date = 0,
       vote_result = YEA, policy_area = TAX_POLICY,
       description = ''Tax cut for households paid for by a tax increase on imports'',
       source_url = None, verification_status = ''verified'' \<rparr>"

text \<open>The vote of the test again, with other metadata and a disputed verification.\<close>

definition disputed_vote :: VerifiableVote where
  "disputed_vote =
     pro_market_vote \<lparr> bill_id := ''S9'', bill_name := ''Another Act'', vote_date := 86400,
       source_url := Some ''https://example.org/vote'', verification_status := ''disputed'' \<rparr>"


section \<open>Properties\<close>

subsection \<open>The substring test\<close>

lemma startswith_iff: "startswith s t \<longleftrightarrow> (\<exists>q. s = t @ q)"
  by (induction t arbitrary: s) (auto split: list.splits)

lemma contains_iff: "contains s t \<longleftrightarrow> (\<exists>p q. s = p @ t @ q)"
proof (induction s)
  case Nil
  then show ?case by auto
next
  case (Cons c cs)
  show ?case
  proof
    assume "contains (c # cs) t"
    then consider "startswith (c # cs) t" | "contains cs t" by auto
    then show "\<exists>p q. c # cs = p @ t @ q"
    proof cases
      case 1
      then obtain q where "c # cs = t @ q" using startswith_iff by blast
      then have "c # cs = [] @ t @ q" by simp
      then show ?thesis by blast
    next
      case 2
      then obtain p q where "cs = p @ t @ q" using Cons.IH by blast
      then have "c # cs = (c # p) @ t @ q" by simp
      then show ?thesis by blast
    qed
  next
    assume "\<exists>p q. c # cs = p @ t @ q"
    then obtain p q where pq: "c # cs = p @ t @ q" by blast
    show "contains (c # cs) t"
    proof (cases p)
      case Nil
      with pq have "startswith (c # cs) t" using startswith_iff by auto
      then show ?thesis by simp
    next
      case (Cons a p')
      with pq have "cs = p' @ t @ q" by simp
      then have "contains cs t" using Cons.IH by blast
      then show ?thesis by simp
    qed
  qed
qed

subsection \<open>The scorer in terms of its local variables\<close>

lemma score_vote_blend:
  "score_vote cv v =
     max 0 (min 100 (50 + (alignment_score v - 50) * area_weight cv v * 2))"
  by (simp add: score_vote_def alignment_score_def area_weight_def Let_def)

lemma vote_aligns_vote_result_update [simp]:
  "vote_aligns_with_values (v\<lparr>vote_result := r\<rparr>) = vote_aligns_with_values v"
  by (simp add: vote_aligns_with_values_def)





subsection \<open>Lowercased descriptions and sums over permuted lists\<close>

lemma lower_pro_market:
  "lower ''Reduces corporate tax rates by 5%'' = ''reduces corporate tax rates by 5%''"
  by (simp add: lower_def lower_char_def)

lemma lower_mixed_terms:
  "lower ''Tax cut for households paid for by a tax increase on imports'' =
   ''tax cut for households paid for by a tax increase on imports''"
  by (simp add: lower_def lower_char_def)

lemma mixed_terms_vote_aligned: "vote_aligns_with_values mixed_terms_vote"
  by (simp add: vote_aligns_with_values_def mixed_terms_vote_def lower_mixed_terms
      tax_cut_terms_def any_term_in_def)


subsection \<open>Abstentions\<close>



subsection \<open>The empty vote list\<close>

text \<open>
  Claim C3. For every configuration, the overall score of a research result with no
  verified vote is the pair (50, mixed_moderate); the function has no failing branch.
\<close>

theorem calculate_overall_score_empty:
  "verified_votes r = [] \<Longrightarrow> calculate_overall_score cv r = (50, MIXED_MODERATE)"
  by (simp add: calculate_overall_score_def)

theorem calculate_overall_score_empty_witness:
  "verified_votes mock_research_result = [] \<and>
   calculate_overall_score DEFAULT_CLIENT_VALUES mock_research_result = (50, MIXED_MODERATE)"
proof -
  have h: "verified_votes mock_research_result = []"
    by (simp add: mock_research_result_def)
  from calculate_overall_score_empty [OF h] h show ?thesis by simp
qed

subsection \<open>Score categories\<close>

text \<open>
  Claim C4. The thresholds of the category mapping include their lower bound: a score of
  at least 80 is strongly_pro_market, a score in [60, 80) leans_pro_market, in [40, 60)
  mixed_moderate, in [20, 40) leans_regulatory, and below 20 strongly_regulatory. So 80
  is strongly_pro_market, 79.9 and 60 are leans_pro_market, 40 is mixed_moderate and 20
  is leans_regulatory.
\<close>

theorem score_to_category_thresholds:
  "(score_to_category s = STRONGLY_PRO_MARKET \<longleftrightarrow> 80 \<le> s) \<and>
   (score_to_category s = LEANS_PRO_MARKET \<longleftrightarrow> 60 \<le> s \<and> s < 80) \<and>
   (score_to_category s = MIXED_MODERATE \<longleftrightarrow> 40 \<le> s \<and> s < 60) \<and>
   (score_to_category s = LEANS_REGULATORY \<longleftrightarrow> 20 \<le> s \<and> s < 40) \<and>
   (score_to_category s = STRONGLY_REGULATORY \<longleftrightarrow> s < 20) \<and>
   score_to_category 80 = STRONGLY_PRO_MARKET \<and>
   score_to_category 79.9 = LEANS_PRO_MARKET \<and>
   score_to_category 60 = LEANS_PRO_MARKET \<and>
   score_to_category 40 = MIXED_MODERATE \<and>
   score_to_category 20 = LEANS_REGULATORY"
  by (simp add: score_to_category_def)

subsection \<open>The clamp\<close>

text \<open>
  Claim C5. For every vote and every configuration whose weight for the vote's policy
  area is a non-negative real number, the score of the vote lies in [0, 100].
\<close>

theorem score_vote_range:
  "policy_weights cv (policy_area v) = Some w \<Longrightarrow> 0 \<le> w \<Longrightarrow>
   0 \<le> score_vote cv v \<and> score_vote cv v \<le> 100"
  by (simp add: score_vote_def Let_def)

theorem score_vote_range_witness:
  "policy_weights heavy_tax_values (policy_area mixed_terms_vote) = Some 3 \<and> (0::real) \<le> 3 \<and>
   0 \<le> score_vote heavy_tax_values mixed_terms_vote \<and>
   score_vote heavy_tax_values mixed_terms_vote \<le> 100 \<and>
   score_vote heavy_tax_values mixed_terms_vote = 100"
proof -
  have h: "policy_weights heavy_tax_values (policy_area mixed_terms_vote) = Some 3"
    by (simp add: heavy_tax_values_def mixed_terms_vote_def)
  have a: "alignment_score mixed_terms_vote = 75"
    by (simp add: alignment_score_def mixed_terms_vote_aligned) (simp add: mixed_terms_vote_def)
  have "score_vote heavy_tax_values mixed_terms_vote = 100"
    by (simp add: score_vote_blend a area_weight_def h)
  with score_vote_range [OF h] h show ?thesis by simp
qed

subsection \<open>The default weight\<close>

text \<open>
  Claim C7. When the weight map of the configuration has no entry for the policy area of
  the vote, the score is computed with the default weight 0.2, that is
  50 + (alignment_score - 50) * 0.2 * 2; the lookup does not fail.
\<close>

theorem score_vote_default_weight:
  "policy_weights cv (policy_area v) = None \<Longrightarrow>
   score_vote cv v = 50 + (alignment_score v - 50) * 0.2 * 2"
  by (simp add: score_vote_def alignment_score_def Let_def)

theorem score_vote_default_weight_witness:
  "policy_weights unweighted_values (policy_area mixed_terms_vote) = None \<and>
   score_vote unweighted_values mixed_terms_vote =
     50 + (alignment_score mixed_terms_vote - 50) * 0.2 * 2"
proof -
  have h: "policy_weights unweighted_values (policy_area mixed_terms_vote) = None"
    by (simp add: unweighted_values_def)
  from score_vote_default_weight [OF h] h show ?thesis by simp
qed

subsection \<open>Yea against Nay\<close>


subsection \<open>The fields the score depends on\<close>

text \<open>
  Claim C10. The score of a vote depends only on the vote's result, policy area and
  description and on the weight map of the configuration: votes that agree on the three
  fields get the same score, whatever their bill id, bill name, date, source URL and
  verification status.
\<close>

theorem score_vote_depends_on:
  assumes "vote_result v = vote_result v'" and "policy_area v = policy_area v'"
    and "description v = description v'" and "policy_weights cv = policy_weights cv'"
  shows "score_vote cv v = score_vote cv' v'"
proof -
  have "vote_aligns_with_values v = vote_aligns_with_values v'"
    unfolding vote_aligns_with_values_def assms ..
  then show ?thesis
    unfolding score_vote_def assms by simp
qed

theorem score_vote_depends_on_witness:
  "vote_result disputed_vote = vote_result pro_market_vote \<and>
   policy_area disputed_vote = policy_area pro_market_vote \<and>
   description disputed_vote = description pro_market_vote \<and>
   verification_status disputed_vote \<noteq> verification_status pro_market_vote \<and>
   score_vote DEFAULT_CLIENT_VALUES disputed_vote = score_vote DEFAULT_CLIENT_VALUES pro_market_vote"
proof -
  have h: "vote_result disputed_vote = vote_result pro_market_vote"
     "policy_area disputed_vote = policy_area pro_market_vote"
     "description disputed_vote = description pro_market_vote"
     "verification_status disputed_vote \<noteq> verification_status pro_market_vote"
    by (simp_all add: disputed_vote_def pro_market_vote_def)
  from score_vote_depends_on [OF h(1) h(2) h(3) refl, of DEFAULT_CLIENT_VALUES] h
  show ?thesis by blast
qed

subsection \<open>The tax cut vote of the test\<close>

text \<open>
  Claim C1. The claim is that a tax policy vote, Yea, described as
  "Reduces corporate tax rates by 5%", under a weight of 0.25 for tax policy, is
  classified as aligned, has the raw alignment score 75 and the score 62.5; the test
  \<^verbatim>\<open>test_vote_scorer\<close> expects a score above 50 for it. The code gives something else:
  none of the tax cut terms occurs in the lowercased description (it reads
  "reduces corporate tax", while the term is "reduce tax"), so the classifier returns
  false, the raw alignment score is 25 and the score is 37.5.
\<close>

theorem reduces_corporate_tax_not_aligned:
  assumes "policy_area v = TAX_POLICY" and "vote_result v = YEA"
    and "description v = ''Reduces corporate tax rates by 5%''"
    and "policy_weights cv TAX_POLICY = Some 0.25"
  shows "vote_aligns_with_values v = False \<and> alignment_score v = 25 \<and> score_vote cv v = 37.5"
proof -
  have 1: "\<not> any_term_in tax_cut_terms ''reduces corporate tax rates by 5%''"
    by (simp add: any_term_in_def tax_cut_terms_def)
  have a: "vote_aligns_with_values v = False"
    by (simp add: vote_aligns_with_values_def assms lower_pro_market 1)
  have b: "alignment_score v = 25"
    by (simp add: alignment_score_def a assms)
  have c: "area_weight cv v = 0.25"
    by (simp add: area_weight_def assms)
  have "score_vote cv v = 37.5"
    by (simp add: score_vote_blend b c)
  with a b show ?thesis by simp
qed

theorem reduces_corporate_tax_not_aligned_witness:
  "vote_aligns_with_values pro_market_vote = False \<and> alignment_score pro_market_vote = 25 \<and>
   score_vote DEFAULT_CLIENT_VALUES pro_market_vote = 37.5"
  by (rule reduces_corporate_tax_not_aligned)
     (simp_all add: pro_market_vote_def DEFAULT_CLIENT_VALUES_def)

subsection \<open>Supporting terms before opposing terms\<close>

text \<open>
  Claim C6. In every policy area the classifier looks for the supporting terms before
  the opposing ones: a vote whose lowercased description contains a supporting term of
  its area is classified as aligned, also when the description contains an opposing
  term of that area as well.
\<close>

theorem supporting_terms_checked_first:
  "any_term_in (supporting_terms (policy_area v)) (lower (description v)) \<Longrightarrow>
   vote_aligns_with_values v = True"
  by (cases "policy_area v") (simp_all add: vote_aligns_with_values_def supporting_terms_def)

theorem supporting_terms_checked_first_witness:
  "any_term_in (supporting_terms (policy_area mixed_terms_vote))
     (lower (description mixed_terms_vote)) \<and>
   any_term_in (opposing_terms (policy_area mixed_terms_vote))
     (lower (description mixed_terms_vote)) \<and>
   vote_aligns_with_values mixed_terms_vote = True"
proof -
  have s: "any_term_in (supporting_terms (policy_area mixed_terms_vote))
     (lower (description mixed_terms_vote))"
    by (simp add: mixed_terms_vote_def lower_mixed_terms supporting_terms_def
        tax_cut_terms_def any_term_in_def)
  have "any_term_in (opposing_terms (policy_area mixed_terms_vote))
     (lower (description mixed_terms_vote))"
    by (simp add: mixed_terms_vote_def lower_mixed_terms opposing_terms_def
        tax_increase_terms_def any_term_in_def)
  with s supporting_terms_checked_first [OF s] show ?thesis by blast
qed

subsection \<open>The order of the votes\<close>



end
